theory Spec2Isabelle
  imports Complex_Main "HOL-Library.Multiset"
begin

section \<open>JavaScript values\<close>

text \<open>
  The values that travel through \<^verbatim>\<open>libs/transform.js\<close>: the cells of a row, the
  statistics handed to the environment and the chart specifications of the plot stages.
  A finite number is a real (arithmetic does not round, and there is one zero); the
  numbers that are not finite are \<open>JNaN\<close>, \<open>JInfinity\<close> and \<open>JMinusInfinity\<close>. An object
  is the list of its own properties in insertion order; it inherits from
  \<^verbatim>\<open>Object.prototype\<close>, and \<open>JBuiltin k\<close> is the value that
  \<^verbatim>\<open>Object.prototype\<close> has for the name \<open>k\<close> (a built-in function, or the prototype
  itself for \<^verbatim>\<open>__proto__\<close>). The cells of a dataframe are primitive values.
\<close>

datatype jsval =
    JUndefined
  | JNull
  | JBool bool
  | JNum real
  | JNaN
  | JInfinity
  | JMinusInfinity
  | JStr string
  | JArr "jsval list"
  | JObj "(string \<times> jsval) list"
  | JBuiltin string

type_synonym object = "(string \<times> jsval) list"


text \<open>
  \<^verbatim>\<open>a === b\<close> on primitive values: equality, except that \<^verbatim>\<open>NaN\<close> is not equal
  to itself. The comparison of \<^verbatim>\<open>Set\<close> and of
  \<^verbatim>\<open>Array.prototype.includes\<close> is plain equality: there \<^verbatim>\<open>NaN\<close> is equal to
  itself.
\<close>

definition strict_equal :: "jsval \<Rightarrow> jsval \<Rightarrow> bool" where
  "strict_equal a b \<longleftrightarrow> a = b \<and> a \<noteq> JNaN"

text \<open>The names of the properties of \<^verbatim>\<open>Object.prototype\<close>.\<close>

definition Object_prototype :: "string list" where
  "Object_prototype =
     [''constructor'', ''__defineGetter__'', ''__defineSetter__'', ''hasOwnProperty'',
      ''__lookupGetter__'', ''__lookupSetter__'', ''isPrototypeOf'', ''propertyIsEnumerable'',
      ''toString'', ''valueOf'', ''__proto__'', ''toLocaleString'']"

text \<open>
  \<^verbatim>\<open>k in obj\<close>, for an object with the own property names \<open>names\<close>: the operator
  looks along the prototype chain.
\<close>

definition has_property :: "string \<Rightarrow> string list \<Rightarrow> bool" where
  "has_property k names \<longleftrightarrow> k \<in> set names \<or> k \<in> set Object_prototype"

text \<open>
  \<^verbatim>\<open>obj[k]\<close>: the own property, else the inherited one, else \<^verbatim>\<open>undefined\<close>.
\<close>

definition get_prop :: "object \<Rightarrow> string \<Rightarrow> jsval" where
  "get_prop obj k =
     (case map_of obj k of
        Some v \<Rightarrow> v
      | None \<Rightarrow> if k \<in> set Object_prototype then JBuiltin k else JUndefined)"

text \<open>An own property is written: an existing one keeps its place, a new one goes last.\<close>

fun own_put :: "string \<Rightarrow> jsval \<Rightarrow> object \<Rightarrow> object" where
  "own_put k v [] = [(k, v)]"
| "own_put k v (p # ps) = (if fst p = k then (k, v) # ps else p # own_put k v ps)"

text \<open>
  \<^verbatim>\<open>obj[k] = v\<close>. For the name \<^verbatim>\<open>__proto__\<close>, unless the object has an own
  property of that name, the assignment goes to the setter inherited from
  \<^verbatim>\<open>Object.prototype\<close> and creates no property: the setter ignores a primitive
  \<open>v\<close>. (It changes the prototype for an object or \<^verbatim>\<open>null\<close>; the source never
  assigns one under a computed name.)
\<close>

definition set_prop :: "string \<Rightarrow> jsval \<Rightarrow> object \<Rightarrow> object" where
  "set_prop k v obj =
     (if k = ''__proto__'' \<and> map_of obj k = None then obj else own_put k v obj)"

text \<open>\<^verbatim>\<open>Object.assign(target, ...sources)\<close>: a shallow copy, source after source.\<close>

definition Object_assign :: "object \<Rightarrow> object list \<Rightarrow> object" where
  "Object_assign target sources =
     fold (\<lambda>src tgt. fold (\<lambda>(k, v). set_prop k v) src tgt) sources target"

text \<open>
  \<^verbatim>\<open>new Set(xs)\<close> followed by \<^verbatim>\<open>Array.from\<close>: the distinct elements of \<open>xs\<close>
  in the order of their first occurrence; the size of the set is the length of this list.
\<close>

definition Set_new :: "'a list \<Rightarrow> 'a list" where
  "Set_new xs = fold (\<lambda>x known. if x \<in> set known then known else known @ [x]) xs []"

section \<open>Errors\<close>

text \<open>
  \<open>Error msg\<close> is an \<^verbatim>\<open>Error\<close> with its message, as a failed
  \<^verbatim>\<open>util.check\<close> and the statistics library throw it; \<open>TypeError\<close> is the exception
  of the language itself for a member access on \<^verbatim>\<open>null\<close> or \<^verbatim>\<open>undefined\<close>
  and for \<^verbatim>\<open>new\<close> on something that is not a constructor; \<open>RangeError\<close> is the one
  for an array length of 4294967296 or more; \<open>DependencyUnavailable name\<close> is the failure
  of the environment when a dataset is asked for that it does not hold.
\<close>

datatype error =
    Error string
  | TypeError
  | RangeError
  | DependencyUnavailable string

text \<open>
  Modelled from the spec: \<^verbatim>\<open>check\<close> of \<^verbatim>\<open>./util\<close>, which is not among the
  sources. A guard that is false makes the construction or the run fail (section 7 of the
  specification); the failure carries the message the caller passes. The continuation
  \<open>k\<close> is what the caller does after the guard.
\<close>

definition check :: "bool \<Rightarrow> string \<Rightarrow> (error + 'a) \<Rightarrow> error + 'a" where
  "check condition message k = (if condition then k else Inl (Error message))"

text \<open>The names the specification gives to three of these failures.\<close>

definition InvariantViolation :: error where
  "InvariantViolation = Error ''Cannot provide input dataframe to reader''"


definition UnknownOperation :: "string \<Rightarrow> error" where
  "UnknownOperation op = Error (''Unknown summarization operation '' @ op)"

section \<open>Dataframes and the environment\<close>

text \<open>
  Modelled from the spec: \<^verbatim>\<open>DataFrame\<close> of \<^verbatim>\<open>./dataframe\<close>, which is not among
  the sources. The transforms read its \<^verbatim>\<open>data\<close> (the rows, each an object from
  column names to cells) and its \<^verbatim>\<open>columns\<close>, and build one with
  \<^verbatim>\<open>new DataFrame(values, columns)\<close>; \<open>columns\<close> holds the second argument as it
  was passed, \<open>JUndefined\<close> when it was left out.
\<close>

record dataframe =
  data :: "object list"
  columns :: jsval

definition DataFrame :: "object list \<Rightarrow> jsval \<Rightarrow> dataframe" where
  "DataFrame values oldColumns = \<lparr>data = values, columns = oldColumns\<rparr>"

text \<open>
  The dataframe argument and the result of \<^verbatim>\<open>run\<close>: \<^verbatim>\<open>undefined\<close>,
  \<^verbatim>\<open>null\<close> or a dataframe.
\<close>

datatype dfval = Undefined | Null | Frame dataframe

text \<open>
  Modelled from the spec: the environment, which is not among the sources. Section 3 of
  the specification: a mapping from dataset name to realized dataset, an append-only
  execution log, a mapping from label to plot specification, a mapping from label to
  statistic; section 6: \<^verbatim>\<open>getData(name)\<close>, \<^verbatim>\<open>appendLog(stageName)\<close>,
  \<^verbatim>\<open>setPlot(label, spec)\<close>, \<^verbatim>\<open>setStats(label, value)\<close>; the last two
  overwrite by label; a dataset that is absent is \<open>DependencyUnavailable\<close> (section 8).
\<close>

record env =
  datasets :: "string \<rightharpoonup> dataframe"
  env_log :: "string list"
  plots :: "string \<rightharpoonup> jsval"
  stats :: "string \<rightharpoonup> jsval"

definition appendLog :: "env \<Rightarrow> string \<Rightarrow> env" where
  "appendLog e stageName = e\<lparr>env_log := env_log e @ [stageName]\<rparr>"

definition getData :: "env \<Rightarrow> string \<Rightarrow> error + dataframe" where
  "getData e nm = (case datasets e nm of None \<Rightarrow> Inl (DependencyUnavailable nm) | Some d \<Rightarrow> Inr d)"

definition setPlot :: "env \<Rightarrow> string \<Rightarrow> jsval \<Rightarrow> env" where
  "setPlot e label spec = e\<lparr>plots := (plots e)(label \<mapsto> spec)\<rparr>"

definition setStats :: "env \<Rightarrow> string \<Rightarrow> jsval \<Rightarrow> env" where
  "setStats e label v = e\<lparr>stats := (stats e)(label \<mapsto> v)\<rparr>"

section \<open>The collaborators of the transforms\<close>

text \<open>
  What \<^verbatim>\<open>new Summarize[op](column)\<close> builds.
  Modelled from the spec: the classes of \<^verbatim>\<open>./summarize\<close>, which are not among the
  sources; the glossary: a named aggregation strategy applied to a column;
  \<open>Summarizer op column\<close> is the object that the class named \<open>op\<close> builds for a column.
  \<open>StringObject column\<close> is the object that \<^verbatim>\<open>new Object(column)\<close> builds: the
  inherited \<^verbatim>\<open>Summarize['constructor']\<close> is \<^verbatim>\<open>Object\<close>.
\<close>

datatype summarizer =
    Summarizer string string
  | StringObject string

text \<open>
  What \<^verbatim>\<open>libs/transform.js\<close> calls and does not define, taken as parameters:
  the own property names of the object that \<^verbatim>\<open>./summarize\<close> exports, which are
  the names of the summarizer classes; the operations of a dataframe (the receiver first,
  then the arguments of the call); the one-sample test of the statistics library; and what
  the arithmetic of its two-sample test yields on samples that are not all finite numbers.
  Each of the functions may fail. \<open>'x\<close> is the type of the expressions of
  \<^verbatim>\<open>./expr\<close>.
\<close>

record 'x externals =
  Summarize :: "string list"
  df_drop :: "dataframe \<Rightarrow> string list \<Rightarrow> error + dataframe"
  df_filter :: "dataframe \<Rightarrow> 'x \<Rightarrow> error + dataframe"
  df_groupBy :: "dataframe \<Rightarrow> string list \<Rightarrow> error + dataframe"
  df_join :: "dataframe \<Rightarrow> string \<Rightarrow> string \<Rightarrow> dataframe \<Rightarrow> string \<Rightarrow> string
                \<Rightarrow> error + dataframe"
  df_mutate :: "dataframe \<Rightarrow> string \<Rightarrow> 'x \<Rightarrow> error + dataframe"
  df_select :: "dataframe \<Rightarrow> string list \<Rightarrow> error + dataframe"
  df_sort :: "dataframe \<Rightarrow> string list \<Rightarrow> bool \<Rightarrow> error + dataframe"
  df_summarize :: "dataframe \<Rightarrow> summarizer \<Rightarrow> error + dataframe"
  df_ungroup :: "dataframe \<Rightarrow> error + dataframe"
  df_unique :: "dataframe \<Rightarrow> string list \<Rightarrow> error + dataframe"
  tTest :: "jsval list \<Rightarrow> real \<Rightarrow> error + jsval"
  tTestTwoSample_other :: "jsval list \<Rightarrow> jsval list \<Rightarrow> real \<Rightarrow> error + jsval"

text \<open>
  A method call \<^verbatim>\<open>df.m(...)\<close> on the dataframe argument: a \<open>TypeError\<close> when the
  argument is \<^verbatim>\<open>null\<close> or \<^verbatim>\<open>undefined\<close>, else the result of the operation.
\<close>

definition call_df :: "dfval \<Rightarrow> (dataframe \<Rightarrow> error + dataframe) \<Rightarrow> error + dfval" where
  "call_df df m =
     (case df of
        Frame d \<Rightarrow> (case m d of Inl e \<Rightarrow> Inl e | Inr r \<Rightarrow> Inr (Frame r))
      | _ \<Rightarrow> Inl TypeError)"

subsection \<open>The two-sample test of the statistics library\<close>

text \<open>
  \<^verbatim>\<open>mean\<close> and \<^verbatim>\<open>sampleVariance\<close> of the package
  \<^verbatim>\<open>simple-statistics\<close>, on finite numbers: the sum over the length, and the sum of
  the squared deviations from the mean over the length less one.
\<close>

definition stats_mean :: "real list \<Rightarrow> real" where
  "stats_mean xs = sum_list xs / real (length xs)"

definition stats_sampleVariance :: "real list \<Rightarrow> real" where
  "stats_sampleVariance xs =
     sum_list (map (\<lambda>x. (x - stats_mean xs)\<^sup>2) xs) / (real (length xs) - 1)"

text \<open>
  \<^verbatim>\<open>a / Math.sqrt(c)\<close> for finite \<open>a\<close> and \<open>c\<close>, \<open>c\<close> not negative: a root that is
  zero makes the quotient \<^verbatim>\<open>NaN\<close> or infinite.
\<close>

definition divide_by_sqrt :: "real \<Rightarrow> real \<Rightarrow> jsval" where
  "divide_by_sqrt a c =
     (if sqrt c = 0
      then (if a = 0 then JNaN else if 0 < a then JInfinity else JMinusInfinity)
      else JNum (a / sqrt c))"

text \<open>The t statistic of two samples of finite numbers, each of two values or more.\<close>

definition two_sample_t :: "real list \<Rightarrow> real list \<Rightarrow> real \<Rightarrow> jsval" where
  "two_sample_t xs ys difference =
     (let n = real (length xs);
          m = real (length ys);
          weightedVariance =
            ((n - 1) * stats_sampleVariance xs + (m - 1) * stats_sampleVariance ys) / (n + m - 2)
      in divide_by_sqrt (stats_mean xs - stats_mean ys - difference)
                        (weightedVariance * (1 / n + 1 / m)))"

text \<open>The finite numbers of a sample, when all its values are finite numbers.\<close>

fun number_of :: "jsval \<Rightarrow> real option" where
  "number_of (JNum x) = Some x"
| "number_of _ = None"

definition numbers_of :: "jsval list \<Rightarrow> real list option" where
  "numbers_of vs = those (map number_of vs)"

text \<open>
  \<^verbatim>\<open>tTestTwoSample(sampleX, sampleY, difference)\<close> of the package
  \<^verbatim>\<open>simple-statistics\<close>, which line 3 of \<^verbatim>\<open>libs/transform.js\<close> requires and
  which is not part of the repository; its steps are taken from the package: it returns
  \<^verbatim>\<open>null\<close> when a sample is empty; it takes the mean and then the sample variance of
  each sample, and \<^verbatim>\<open>sampleVariance\<close> throws for a sample of fewer than two values;
  then it returns the t statistic.
\<close>

definition tTestTwoSample ::
  "'x externals \<Rightarrow> jsval list \<Rightarrow> jsval list \<Rightarrow> real \<Rightarrow> error + jsval" where
  "tTestTwoSample ext sampleX sampleY difference =
     (if length sampleX = 0 \<or> length sampleY = 0 then Inr JNull
      else if length sampleX < 2 \<or> length sampleY < 2
      then Inl (Error ''sampleVariance requires at least two data points'')
      else (case (numbers_of sampleX, numbers_of sampleY) of
              (Some xs, Some ys) \<Rightarrow> Inr (two_sample_t xs ys difference)
            | _ \<Rightarrow> tTestTwoSample_other ext sampleX sampleY difference))"

section \<open>Transforms\<close>

text \<open>
  The fields a class adds to those of \<^verbatim>\<open>TransformBase\<close>, in the order in which its
  constructor assigns them, one constructor per class that assigns fields or overrides
  \<^verbatim>\<open>run\<close>: \<open>Join leftName leftCol rightName rightCol\<close>, \<open>Mutate newName expr\<close>,
  \<open>Sequence newName limit\<close>, \<open>Sort columns reverse\<close>, \<open>SummarizeOp op column\<close>,
  \<open>Plot label spec\<close>, \<open>TTestOneSample label colName mean\<close>,
  \<open>TTestPaired label labelCol valueCol\<close>. The five plot classes share the fields and the
  \<^verbatim>\<open>run\<close> of \<^verbatim>\<open>TransformPlot\<close>.

  Parameters have the types their JSDoc comments declare (a string, an array of strings,
  a number, a Boolean, an expression), so the tests \<^verbatim>\<open>typeof x === 'string'\<close>,
  \<^verbatim>\<open>Array.isArray(x)\<close>, \<^verbatim>\<open>typeof x === 'boolean'\<close>,
  \<^verbatim>\<open>typeof x === 'number'\<close> and \<^verbatim>\<open>x instanceof ExprBase\<close> of the
  constructors hold by typing. What is left of a check is what a value of the right type
  can still fail: a string that has to be non-empty, a number that has to be positive, an
  operation that has to be known.
\<close>

datatype 'x own_fields =
    Data string
  | Drop "string list"
  | Filter 'x
  | GroupBy "string list"
  | Join string string string string
  | Mutate string 'x
  | Notify string
  | Select "string list"
  | Sequence string real
  | Sort "string list" bool
  | SummarizeOp string string
  | Ungroup
  | Unique "string list"
  | Plot string object
  | TTestOneSample string string real
  | TTestPaired string string string

record 'x transform =
  name :: string
  requires :: "string list"
  produces :: "string option"
  input_flag :: bool
  output_flag :: bool
  own :: "'x own_fields"

text \<open>
  The fields of \<^verbatim>\<open>TransformBase\<close>; \<open>input_flag\<close> and \<open>output_flag\<close> are its
  \<^verbatim>\<open>input\<close> and \<^verbatim>\<open>output\<close>, \<open>produces\<close> is \<open>None\<close> for \<^verbatim>\<open>null\<close>,
  and \<open>own\<close> holds the fields of the subclass.

  \<^verbatim>\<open>TransformBase.constructor\<close>, lines 24 to 35: of its check, the truthiness of the
  name is left, that is, that the name is not the empty string. The subclass constructor
  assigns its own fields after \<^verbatim>\<open>super(...)\<close> returns; they are the last argument
  here.
\<close>

definition TransformBase_new ::
  "string \<Rightarrow> string list \<Rightarrow> string option \<Rightarrow> bool \<Rightarrow> bool \<Rightarrow> 'x own_fields \<Rightarrow> error + 'x transform" where
  "TransformBase_new nm req pro inp outp flds =
     check (nm \<noteq> []) ''Bad parameters to constructor''
       (Inr \<lparr>name = nm, requires = req, produces = pro, input_flag = inp, output_flag = outp,
             own = flds\<rparr>)"

definition TransformData_new :: "string \<Rightarrow> error + 'x transform" where
  "TransformData_new ds = TransformBase_new ''read'' [] None False True (Data ds)"

definition TransformDrop_new :: "string list \<Rightarrow> error + 'x transform" where
  "TransformDrop_new cols = TransformBase_new ''drop'' [] None True True (Drop cols)"

definition TransformFilter_new :: "'x \<Rightarrow> error + 'x transform" where
  "TransformFilter_new expr = TransformBase_new ''filter'' [] None True True (Filter expr)"

definition TransformGroupBy_new :: "string list \<Rightarrow> error + 'x transform" where
  "TransformGroupBy_new cols = TransformBase_new ''groupBy'' [] None True True (GroupBy cols)"

definition TransformJoin_new :: "string \<Rightarrow> string \<Rightarrow> string \<Rightarrow> string \<Rightarrow> error + 'x transform" where
  "TransformJoin_new leftName leftCol rightName rightCol =
     TransformBase_new ''join'' [leftName, rightName] None False True
       (Join leftName leftCol rightName rightCol)"

definition TransformMutate_new :: "string \<Rightarrow> 'x \<Rightarrow> error + 'x transform" where
  "TransformMutate_new newName expr =
     TransformBase_new ''mutate'' [] None True True (Mutate newName expr)"

definition TransformNotify_new :: "string \<Rightarrow> error + 'x transform" where
  "TransformNotify_new label =
     TransformBase_new ''notify'' [] (Some label) True False (Notify label)"

definition TransformSelect_new :: "string list \<Rightarrow> error + 'x transform" where
  "TransformSelect_new cols = TransformBase_new ''select'' [] None True True (Select cols)"

definition TransformSequence_new :: "string \<Rightarrow> real \<Rightarrow> error + 'x transform" where
  "TransformSequence_new newName limit =
     TransformBase_new ''sequence'' [] None True True (Sequence newName limit)"

definition TransformSort_new :: "string list \<Rightarrow> bool \<Rightarrow> error + 'x transform" where
  "TransformSort_new cols reverse =
     TransformBase_new ''sort'' [] None True True (Sort cols reverse)"

text \<open>
  \<^verbatim>\<open>TransformSummarize.constructor\<close>, lines 321 to 331: the check is
  \<^verbatim>\<open>op in Summarize\<close>, which holds for the names of the summarizer classes and for
  the names that the exported object inherits; the message quotes the operation.
\<close>

definition TransformSummarize_new :: "'x externals \<Rightarrow> string \<Rightarrow> string \<Rightarrow> error + 'x transform" where
  "TransformSummarize_new ext op column =
     check (has_property op (Summarize ext)) (''Unknown summarization operation '' @ op)
       (TransformBase_new ''summarize'' [] None True True (SummarizeOp op column))"

definition TransformUngroup_new :: "error + 'x transform" where
  "TransformUngroup_new = TransformBase_new ''ungroup'' [] None True True Ungroup"

definition TransformUnique_new :: "string list \<Rightarrow> error + 'x transform" where
  "TransformUnique_new cols = TransformBase_new ''unique'' [] None True True (Unique cols)"

subsection \<open>The plot classes\<close>

text \<open>
  \<^verbatim>\<open>TransformPlot.constructor\<close>, lines 388 to 394: the stored specification is a
  shallow copy of \<open>spec\<close>, then of \<open>fillin\<close>, then of \<^verbatim>\<open>{name}\<close>.
\<close>

definition TransformPlot_new :: "string \<Rightarrow> string \<Rightarrow> object \<Rightarrow> object \<Rightarrow> error + 'x transform" where
  "TransformPlot_new nm label spec fillin =
     check (label \<noteq> []) ''Must provide non-empty label''
       (TransformBase_new nm [] None True False
          (Plot label (Object_assign [] [spec, fillin, [(''name'', JStr nm)]])))"

definition field_type :: "string \<Rightarrow> string \<Rightarrow> jsval" where
  "field_type f t = JObj [(''field'', JStr f), (''type'', JStr t)]"

definition TransformBar_new :: "string \<Rightarrow> string \<Rightarrow> string \<Rightarrow> error + 'x transform" where
  "TransformBar_new label axisX axisY =
     check (axisX \<noteq> [] \<and> axisY \<noteq> []) ''Must provide non-empty strings for axes''
       (TransformPlot_new ''bar'' label
          [(''data'', JObj [(''values'', JNull)]),
           (''mark'', JStr ''bar''),
           (''encoding'', JObj [(''x'', field_type axisX ''ordinal''),
                                (''y'', field_type axisY ''quantitative''),
                                (''tooltip'', field_type axisY ''quantitative'')])]
          [(''axisX'', JStr axisX), (''axisY'', JStr axisY)])"

definition TransformBox_new :: "string \<Rightarrow> string \<Rightarrow> string \<Rightarrow> error + 'x transform" where
  "TransformBox_new label axisX axisY =
     check (axisX \<noteq> [] \<and> axisY \<noteq> []) ''Must provide non-empty strings for axes''
       (TransformPlot_new ''box'' label
          [(''data'', JObj [(''values'', JNull)]),
           (''mark'', JObj [(''type'', JStr ''boxplot''), (''extent'', JNum 1.5)]),
           (''encoding'', JObj [(''x'', field_type axisX ''ordinal''),
                                (''y'', field_type axisY ''quantitative'')])]
          [(''axisX'', JStr axisX), (''axisY'', JStr axisY)])"

definition TransformDot_new :: "string \<Rightarrow> string \<Rightarrow> error + 'x transform" where
  "TransformDot_new label axisX =
     check (axisX \<noteq> []) ''Must provide non-empty string for axis''
       (TransformPlot_new ''dot'' label
          [(''data'', JObj [(''values'', JNull)]),
           (''mark'', JObj [(''type'', JStr ''circle''), (''opacity'', JNum 1)]),
           (''transform'',
              JArr [JObj [(''window'', JArr [JObj [(''op'', JStr ''rank''), (''as'', JStr ''id'')]]),
                          (''groupby'', JArr [JStr axisX])]]),
           (''encoding'', JObj [(''x'', field_type axisX ''ordinal''),
                                (''y'', JObj [(''field'', JStr ''id''),
                                              (''type'', JStr ''ordinal''),
                                              (''axis'', JNull),
                                              (''sort'', JStr ''descending'')])])]
          [(''axisX'', JStr axisX)])"

definition TransformHistogram_new :: "string \<Rightarrow> string \<Rightarrow> real \<Rightarrow> error + 'x transform" where
  "TransformHistogram_new label column bins =
     check (column \<noteq> [] \<and> bins > 0) ''Invalid parameters for histogram''
       (TransformPlot_new ''histogram'' label
          [(''data'', JObj [(''values'', JNull)]),
           (''mark'', JStr ''bar''),
           (''encoding'', JObj [(''x'', JObj [(''bin'', JObj [(''maxbins'', JNum bins)]),
                                              (''field'', JStr column),
                                              (''type'', JStr ''quantitative'')]),
                                (''y'', JObj [(''aggregate'', JStr ''count''),
                                              (''type'', JStr ''quantitative'')]),
                                (''tooltip'', JNull)])]
          [(''column'', JStr column), (''bins'', JNum bins)])"

text \<open>
  \<^verbatim>\<open>TransformScatter.constructor\<close>: the colour is \<^verbatim>\<open>null\<close> (\<open>None\<close>) or a
  string; \<^verbatim>\<open>if (color)\<close> holds for a non-empty string.
\<close>

definition TransformScatter_new ::
  "string \<Rightarrow> string \<Rightarrow> string \<Rightarrow> string option \<Rightarrow> error + 'x transform" where
  "TransformScatter_new label axisX axisY color =
     check (axisX \<noteq> [] \<and> axisY \<noteq> []) ''Must provide non-empty strings for axes''
       (check (color \<noteq> Some []) ''Must provide null or non-empty string for color''
          (TransformPlot_new ''scatter'' label
             [(''data'', JObj [(''values'', JNull)]),
              (''mark'', JStr ''point''),
              (''encoding'',
                 JObj ([(''x'', field_type axisX ''quantitative''),
                        (''y'', field_type axisY ''quantitative'')] @
                       (case color of
                          None \<Rightarrow> []
                        | Some c \<Rightarrow> if c \<noteq> [] then [(''color'', field_type c ''nominal'')] else [])))]
             [(''axisX'', JStr axisX), (''axisY'', JStr axisY),
              (''color'', (case color of None \<Rightarrow> JNull | Some c \<Rightarrow> JStr c))]))"

subsection \<open>The statistical tests\<close>

definition TransformTTestOneSample_new :: "string \<Rightarrow> string \<Rightarrow> real \<Rightarrow> error + 'x transform" where
  "TransformTTestOneSample_new label colName mean =
     TransformBase_new ''ttest_one'' [] None True False (TTestOneSample label colName mean)"

definition TransformTTestPaired_new :: "string \<Rightarrow> string \<Rightarrow> string \<Rightarrow> error + 'x transform" where
  "TransformTTestPaired_new label labelCol valueCol =
     TransformBase_new ''ttest_two'' [] None True False (TTestPaired label labelCol valueCol)"

section \<open>Equality of column lists\<close>

text \<open>\<^verbatim>\<open>'columns' in obj\<close>: the classes whose constructor assigns \<^verbatim>\<open>this.columns\<close>.\<close>

fun columns_of :: "'x own_fields \<Rightarrow> string list option" where
  "columns_of (Drop cols) = Some cols"
| "columns_of (GroupBy cols) = Some cols"
| "columns_of (Select cols) = Some cols"
| "columns_of (Sort cols reverse) = Some cols"
| "columns_of (Unique cols) = Some cols"
| "columns_of _ = None"

text \<open>
  \<^verbatim>\<open>TransformBase.equalColumns\<close>, lines 42 to 51. \<open>other\<close> is a transform, so
  \<^verbatim>\<open>other instanceof TransformBase\<close> holds.
\<close>

definition equalColumns :: "'x transform \<Rightarrow> 'x transform \<Rightarrow> error + bool" where
  "equalColumns this other =
     (case columns_of (own this) of
        None \<Rightarrow> Inl (Error ''This object must have columns'')
      | Some this_columns \<Rightarrow>
          (case columns_of (own other) of
             None \<Rightarrow> Inl (Error ''Other object must have columns'')
           | Some other_columns \<Rightarrow>
               Inr (name this = name other \<and>
                    length this_columns = length other_columns \<and>
                    list_all (\<lambda>x. x \<in> set other_columns) this_columns)))"

text \<open>The \<^verbatim>\<open>equal\<close> of the five classes with columns: lines 93, 138, 246, 305 and 372.\<close>

definition TransformDrop_equal :: "'x transform \<Rightarrow> 'x transform \<Rightarrow> error + bool" where
  "TransformDrop_equal this other = equalColumns this other"

definition TransformGroupBy_equal :: "'x transform \<Rightarrow> 'x transform \<Rightarrow> error + bool" where
  "TransformGroupBy_equal this other = equalColumns this other"

definition TransformSelect_equal :: "'x transform \<Rightarrow> 'x transform \<Rightarrow> error + bool" where
  "TransformSelect_equal this other = equalColumns this other"

definition TransformSort_equal :: "'x transform \<Rightarrow> 'x transform \<Rightarrow> error + bool" where
  "TransformSort_equal this other = equalColumns this other"

definition TransformUnique_equal :: "'x transform \<Rightarrow> 'x transform \<Rightarrow> error + bool" where
  "TransformUnique_equal this other = equalColumns this other"

section \<open>Running a transform\<close>

text \<open>
  \<^verbatim>\<open>run(env, df)\<close> may assign to the fields of \<^verbatim>\<open>this\<close>, changes the
  environment it is given, and returns a value or throws. Its model returns all three:
  the transform after the call, the environment after the call, and the outcome. What was
  written to the environment before an exception stays written.
\<close>

type_synonym 'x result = "'x transform \<times> env \<times> (error + dfval)"

definition TransformData_run :: "'x transform \<Rightarrow> string \<Rightarrow> env \<Rightarrow> dfval \<Rightarrow> 'x result" where
  "TransformData_run this dataset e df =
     (let e1 = appendLog e (name this) in
      (this, e1,
       check (df = Null) ''Cannot provide input dataframe to reader''
         (case getData e1 dataset of
            Inl err \<Rightarrow> Inl err
          | Inr loaded \<Rightarrow> Inr (Frame (DataFrame (data loaded) (columns loaded))))))"

definition TransformDrop_run ::
  "'x externals \<Rightarrow> 'x transform \<Rightarrow> string list \<Rightarrow> env \<Rightarrow> dfval \<Rightarrow> 'x result" where
  "TransformDrop_run ext this cols e df =
     (let e1 = appendLog e (name this) in
      (this, e1, call_df df (\<lambda>d. df_drop ext d cols)))"

definition TransformFilter_run ::
  "'x externals \<Rightarrow> 'x transform \<Rightarrow> 'x \<Rightarrow> env \<Rightarrow> dfval \<Rightarrow> 'x result" where
  "TransformFilter_run ext this expr e df =
     (let e1 = appendLog e (name this) in
      (this, e1, call_df df (\<lambda>d. df_filter ext d expr)))"

definition TransformGroupBy_run ::
  "'x externals \<Rightarrow> 'x transform \<Rightarrow> string list \<Rightarrow> env \<Rightarrow> dfval \<Rightarrow> 'x result" where
  "TransformGroupBy_run ext this cols e df =
     (let e1 = appendLog e (name this) in
      (this, e1, call_df df (\<lambda>d. df_groupBy ext d cols)))"

definition TransformJoin_run ::
  "'x externals \<Rightarrow> 'x transform \<Rightarrow> string \<Rightarrow> string \<Rightarrow> string \<Rightarrow> string \<Rightarrow> env \<Rightarrow> dfval
     \<Rightarrow> 'x result" where
  "TransformJoin_run ext this leftName leftCol rightName rightCol e df =
     (let e1 = appendLog e (name this) in
      (this, e1,
       check (df = Null) ''Cannot provide input dataframe to join''
         (case getData e1 leftName of
            Inl err \<Rightarrow> Inl err
          | Inr left \<Rightarrow>
              (case getData e1 rightName of
                 Inl err \<Rightarrow> Inl err
               | Inr right \<Rightarrow>
                   (case df_join ext left leftName leftCol right rightName rightCol of
                      Inl err \<Rightarrow> Inl err
                    | Inr joined \<Rightarrow> Inr (Frame joined))))))"

definition TransformMutate_run ::
  "'x externals \<Rightarrow> 'x transform \<Rightarrow> string \<Rightarrow> 'x \<Rightarrow> env \<Rightarrow> dfval \<Rightarrow> 'x result" where
  "TransformMutate_run ext this newName expr e df =
     (let e1 = appendLog e (name this) in
      (this, e1, call_df df (\<lambda>d. df_mutate ext d newName expr)))"

definition TransformNotify_run :: "'x transform \<Rightarrow> env \<Rightarrow> dfval \<Rightarrow> 'x result" where
  "TransformNotify_run this e df =
     (let e1 = appendLog e (name this) in (this, e1, Inr df))"

definition TransformSelect_run ::
  "'x externals \<Rightarrow> 'x transform \<Rightarrow> string list \<Rightarrow> env \<Rightarrow> dfval \<Rightarrow> 'x result" where
  "TransformSelect_run ext this cols e df =
     (let e1 = appendLog e (name this) in
      (this, e1, call_df df (\<lambda>d. df_select ext d cols)))"

text \<open>
  \<^verbatim>\<open>TransformSequence.run\<close>, lines 276 to 286.
  The length that \<^verbatim>\<open>Array.from({length: limit}, f)\<close> takes is the integer part of
  a positive \<open>limit\<close> and 0 for a negative one; the array is created with that length,
  which throws \<open>RangeError\<close> from 4294967296 on; then \<open>f\<close> is called on the indices from
  0. Each call assigns \<open>k + 1\<close> to the property \<open>newName\<close> of a new, empty object.
\<close>

definition TransformSequence_run ::
  "'x transform \<Rightarrow> string \<Rightarrow> real \<Rightarrow> env \<Rightarrow> dfval \<Rightarrow> 'x result" where
  "TransformSequence_run this newName limit e df =
     (let e1 = appendLog e (name this);
          len = nat \<lfloor>limit\<rfloor>
      in if 4294967296 \<le> len
         then (this, e1, Inl RangeError)
         else (let raw = map (\<lambda>k. set_prop newName (JNum (real k + 1)) []) [0 ..< len]
               in (this, e1, Inr (Frame (DataFrame raw JUndefined)))))"

definition TransformSort_run ::
  "'x externals \<Rightarrow> 'x transform \<Rightarrow> string list \<Rightarrow> bool \<Rightarrow> env \<Rightarrow> dfval \<Rightarrow> 'x result" where
  "TransformSort_run ext this cols reverse e df =
     (let e1 = appendLog e (name this) in
      (this, e1, call_df df (\<lambda>d. df_sort ext d cols reverse)))"

text \<open>
  \<^verbatim>\<open>TransformSummarize.run\<close>, lines 339 to 343: the summarizer is built before the
  dataframe is touched. \<^verbatim>\<open>Summarize[op]\<close> is a class of the module, or else the
  inherited \<^verbatim>\<open>Object\<close> for the name \<^verbatim>\<open>constructor\<close>, or else a value
  that is not a constructor (a built-in method, the prototype, \<^verbatim>\<open>undefined\<close>), on
  which \<^verbatim>\<open>new\<close> is a \<open>TypeError\<close>.
\<close>

definition TransformSummarize_run ::
  "'x externals \<Rightarrow> 'x transform \<Rightarrow> string \<Rightarrow> string \<Rightarrow> env \<Rightarrow> dfval \<Rightarrow> 'x result" where
  "TransformSummarize_run ext this op column e df =
     (let e1 = appendLog e (name this) in
      (this, e1,
       if op \<in> set (Summarize ext)
       then call_df df (\<lambda>d. df_summarize ext d (Summarizer op column))
       else if op = ''constructor''
       then call_df df (\<lambda>d. df_summarize ext d (StringObject column))
       else Inl TypeError))"

definition TransformUngroup_run ::
  "'x externals \<Rightarrow> 'x transform \<Rightarrow> env \<Rightarrow> dfval \<Rightarrow> 'x result" where
  "TransformUngroup_run ext this e df =
     (let e1 = appendLog e (name this) in
      (this, e1, call_df df (\<lambda>d. df_ungroup ext d)))"

definition TransformUnique_run ::
  "'x externals \<Rightarrow> 'x transform \<Rightarrow> string list \<Rightarrow> env \<Rightarrow> dfval \<Rightarrow> 'x result" where
  "TransformUnique_run ext this cols e df =
     (let e1 = appendLog e (name this) in
      (this, e1, call_df df (\<lambda>d. df_unique ext d cols)))"

text \<open>
  The assignment \<^verbatim>\<open>spec.data.values = v\<close>: it writes into the object held by the
  \<^verbatim>\<open>data\<close> property of \<open>spec\<close>, which stays where it is among the properties.
  \<open>None\<close> when \<open>spec\<close> has no such object: the assignment throws.
\<close>

definition assign_data_values :: "object \<Rightarrow> jsval \<Rightarrow> object option" where
  "assign_data_values spec v =
     (case get_prop spec ''data'' of
        JObj spec_data \<Rightarrow> Some (set_prop ''data'' (JObj (set_prop ''values'' v spec_data)) spec)
      | _ \<Rightarrow> None)"

text \<open>
  \<^verbatim>\<open>TransformPlot.run\<close>, lines 396 to 400. The assignment is to the specification
  held by \<^verbatim>\<open>this\<close>, and the environment is given that same specification. A member
  access on a \<open>df\<close> that is no dataframe is a \<open>TypeError\<close>. The function has no
  \<^verbatim>\<open>return\<close>: its value is \<^verbatim>\<open>undefined\<close>.
\<close>

definition TransformPlot_run ::
  "'x transform \<Rightarrow> string \<Rightarrow> object \<Rightarrow> env \<Rightarrow> dfval \<Rightarrow> 'x result" where
  "TransformPlot_run this label spec e df =
     (let e1 = appendLog e (name this) in
      case df of
        Frame d \<Rightarrow>
          (case assign_data_values spec (JArr (map JObj (data d))) of
             Some spec' \<Rightarrow>
               (this\<lparr>own := Plot label spec'\<rparr>, setPlot e1 label (JObj spec'), Inr Undefined)
           | None \<Rightarrow> (this, e1, Inl TypeError))
      | _ \<Rightarrow> (this, e1, Inl TypeError))"

definition TransformTTestOneSample_run ::
  "'x externals \<Rightarrow> 'x transform \<Rightarrow> string \<Rightarrow> string \<Rightarrow> real \<Rightarrow> env \<Rightarrow> dfval \<Rightarrow> 'x result" where
  "TransformTTestOneSample_run ext this label colName mean e df =
     (let e1 = appendLog e (name this) in
      case df of
        Frame d \<Rightarrow>
          (let samples = map (\<lambda>row. get_prop row colName) (data d) in
           case tTest ext samples mean of
             Inl err \<Rightarrow> (this, e1, Inl err)
           | Inr pValue \<Rightarrow> (this, setStats e1 label pValue, Inr df))
      | _ \<Rightarrow> (this, e1, Inl TypeError))"

text \<open>
  \<^verbatim>\<open>TransformTTestPaired.run\<close>, lines 574 to 590. \<open>known\<close> is the set of the labels
  in the order in which the rows first show them; the destructuring takes its two
  elements; the rows of a label are those whose label is \<^verbatim>\<open>===\<close> to it.
\<close>

definition TransformTTestPaired_run ::
  "'x externals \<Rightarrow> 'x transform \<Rightarrow> string \<Rightarrow> string \<Rightarrow> string \<Rightarrow> env \<Rightarrow> dfval \<Rightarrow> 'x result" where
  "TransformTTestPaired_run ext this label labelCol valueCol e df =
     (let e1 = appendLog e (name this) in
      case df of
        Frame d \<Rightarrow>
          (let known = Set_new (map (\<lambda>row. get_prop row labelCol) (data d)) in
           if length known \<noteq> 2
           then (this, e1, Inl (Error ''Must have exactly two labels for data''))
           else
             (let leftVal = known ! 0;
                  rightVal = known ! 1;
                  leftVals = map (\<lambda>row. get_prop row valueCol)
                               (filter (\<lambda>row. strict_equal (get_prop row labelCol) leftVal)
                                  (data d));
                  rightVals = map (\<lambda>row. get_prop row valueCol)
                                (filter (\<lambda>row. strict_equal (get_prop row labelCol) rightVal)
                                   (data d))
              in case tTestTwoSample ext leftVals rightVals 0 of
                   Inl err \<Rightarrow> (this, e1, Inl err)
                 | Inr pValue \<Rightarrow> (this, setStats e1 label pValue, Inr df)))
      | _ \<Rightarrow> (this, e1, Inl TypeError))"

text \<open>The call \<^verbatim>\<open>t.run(env, df)\<close>: the method of the class of \<open>t\<close>.\<close>

definition run :: "'x externals \<Rightarrow> 'x transform \<Rightarrow> env \<Rightarrow> dfval \<Rightarrow> 'x result" where
  "run ext this e df =
     (case own this of
        Data dataset \<Rightarrow> TransformData_run this dataset e df
      | Drop cols \<Rightarrow> TransformDrop_run ext this cols e df
      | Filter expr \<Rightarrow> TransformFilter_run ext this expr e df
      | GroupBy cols \<Rightarrow> TransformGroupBy_run ext this cols e df
      | Join leftName leftCol rightName rightCol \<Rightarrow>
          TransformJoin_run ext this leftName leftCol rightName rightCol e df
      | Mutate newName expr \<Rightarrow> TransformMutate_run ext this newName expr e df
      | Notify label \<Rightarrow> TransformNotify_run this e df
      | Select cols \<Rightarrow> TransformSelect_run ext this cols e df
      | Sequence newName limit \<Rightarrow> TransformSequence_run this newName limit e df
      | Sort cols reverse \<Rightarrow> TransformSort_run ext this cols reverse e df
      | SummarizeOp op column \<Rightarrow> TransformSummarize_run ext this op column e df
      | Ungroup \<Rightarrow> TransformUngroup_run ext this e df
      | Unique cols \<Rightarrow> TransformUnique_run ext this cols e df
      | Plot label spec \<Rightarrow> TransformPlot_run this label spec e df
      | TTestOneSample label colName mean \<Rightarrow>
          TransformTTestOneSample_run ext this label colName mean e df
      | TTestPaired label labelCol valueCol \<Rightarrow>
          TransformTTestPaired_run ext this label labelCol valueCol e df)"

section \<open>Vocabulary of the properties\<close>



text \<open>The transforms that the five exported plot classes construct.\<close>

inductive plot_variant :: "'x transform \<Rightarrow> bool" where
  bar: "TransformBar_new label axisX axisY = Inr t \<Longrightarrow> plot_variant t"
| box: "TransformBox_new label axisX axisY = Inr t \<Longrightarrow> plot_variant t"
| dot: "TransformDot_new label axisX = Inr t \<Longrightarrow> plot_variant t"
| histogram: "TransformHistogram_new label column bins = Inr t \<Longrightarrow> plot_variant t"
| scatter: "TransformScatter_new label axisX axisY color = Inr t \<Longrightarrow> plot_variant t"

text \<open>
  The transforms that the stage classes exported by the module construct: every export but
  the base class, which has no \<^verbatim>\<open>run\<close>.
\<close>

inductive constructed :: "'x externals \<Rightarrow> 'x transform \<Rightarrow> bool" for ext :: "'x externals" where
  c_data: "TransformData_new ds = Inr t \<Longrightarrow> constructed ext t"
| c_drop: "TransformDrop_new cols = Inr t \<Longrightarrow> constructed ext t"
| c_filter: "TransformFilter_new expr = Inr t \<Longrightarrow> constructed ext t"
| c_groupBy: "TransformGroupBy_new cols = Inr t \<Longrightarrow> constructed ext t"
| c_join: "TransformJoin_new leftName leftCol rightName rightCol = Inr t \<Longrightarrow> constructed ext t"
| c_mutate: "TransformMutate_new newName expr = Inr t \<Longrightarrow> constructed ext t"
| c_notify: "TransformNotify_new label = Inr t \<Longrightarrow> constructed ext t"
| c_select: "TransformSelect_new cols = Inr t \<Longrightarrow> constructed ext t"
| c_sequence: "TransformSequence_new newName limit = Inr t \<Longrightarrow> constructed ext t"
| c_sort: "TransformSort_new cols reverse = Inr t \<Longrightarrow> constructed ext t"
| c_summarize: "TransformSummarize_new ext op column = Inr t \<Longrightarrow> constructed ext t"
| c_ungroup: "TransformUngroup_new = Inr t \<Longrightarrow> constructed ext t"
| c_unique: "TransformUnique_new cols = Inr t \<Longrightarrow> constructed ext t"
| c_plot: "plot_variant t \<Longrightarrow> constructed ext t"
| c_ttest_one: "TransformTTestOneSample_new label colName mean = Inr t \<Longrightarrow> constructed ext t"
| c_ttest_two: "TransformTTestPaired_new label labelCol valueCol = Inr t \<Longrightarrow> constructed ext t"

section \<open>Sample inputs\<close>

text \<open>
  Stand-ins for the collaborators, to run the transforms on concrete inputs: expressions
  are of type \<open>unit\<close>, three summarizer classes are exported, an operation of a dataframe
  returns its receiver, filtering fails, the one-sample test returns the size of its
  sample, and the two-sample test yields \<^verbatim>\<open>NaN\<close> on values that are not finite
  numbers.
\<close>

definition sample_externals :: "unit externals" where
  "sample_externals =
     \<lparr>Summarize = [''count'', ''mean'', ''sum''],
      df_drop = (\<lambda>d cols. Inr d),
      df_filter = (\<lambda>d expr. Inl (Error ''Require Boolean result'')),
      df_groupBy = (\<lambda>d cols. Inr d),
      df_join = (\<lambda>left leftName leftCol right rightName rightCol. Inr left),
      df_mutate = (\<lambda>d newName expr. Inr d),
      df_select = (\<lambda>d cols. Inr d),
      df_sort = (\<lambda>d cols reverse. Inr d),
      df_summarize = (\<lambda>d s. Inr d),
      df_ungroup = (\<lambda>d. Inr d),
      df_unique = (\<lambda>d cols. Inr d),
      tTest = (\<lambda>samples mean. Inr (JNum (real (length samples)))),
      tTestTwoSample_other = (\<lambda>sampleX sampleY difference. Inr JNaN)\<rparr>"

definition empty_frame :: dataframe where
  "empty_frame = DataFrame [] JUndefined"


definition two_label_frame :: dataframe where
  "two_label_frame =
     DataFrame [[(''group'', JStr ''warm''), (''value'', JNum 1)],
                [(''group'', JStr ''cool''), (''value'', JNum 2)],
                [(''group'', JStr ''warm''), (''value'', JNum 3)]] JUndefined"



definition sample_env :: env where
  "sample_env =
     \<lparr>datasets = [''colors'' \<mapsto> two_label_frame], env_log = [], plots = Map.empty,
      stats = Map.empty\<rparr>"

definition read_colors :: "unit transform" where
  "read_colors = \<lparr>name = ''read'', requires = [], produces = None, input_flag = False,
                  output_flag = True, own = Data ''colors''\<rparr>"

definition drop_of :: "string list \<Rightarrow> unit transform" where
  "drop_of cols = \<lparr>name = ''drop'', requires = [], produces = None, input_flag = True,
                   output_flag = True, own = Drop cols\<rparr>"

definition join_colors :: "unit transform" where
  "join_colors = \<lparr>name = ''join'', requires = [''colors'', ''names''], produces = None,
                  input_flag = False, output_flag = True,
                  own = Join ''colors'' ''group'' ''names'' ''group''\<rparr>"

definition sequence_of :: "string \<Rightarrow> real \<Rightarrow> unit transform" where
  "sequence_of newName limit =
     \<lparr>name = ''sequence'', requires = [], produces = None, input_flag = True,
      output_flag = True, own = Sequence newName limit\<rparr>"

definition summarize_mean :: "unit transform" where
  "summarize_mean = \<lparr>name = ''summarize'', requires = [], produces = None, input_flag = True,
                     output_flag = True, own = SummarizeOp ''mean'' ''value''\<rparr>"

definition summarize_toString :: "unit transform" where
  "summarize_toString = \<lparr>name = ''summarize'', requires = [], produces = None,
                         input_flag = True, output_flag = True,
                         own = SummarizeOp ''toString'' ''value''\<rparr>"

definition ttest_groups :: "unit transform" where
  "ttest_groups = \<lparr>name = ''ttest_two'', requires = [], produces = None, input_flag = True,
                   output_flag = False, own = TTestPaired ''t'' ''group'' ''value''\<rparr>"

definition bar_spec :: "jsval \<Rightarrow> object" where
  "bar_spec vals =
     [(''data'', JObj [(''values'', vals)]),
      (''mark'', JStr ''bar''),
      (''encoding'', JObj [(''x'', JObj [(''field'', JStr ''group''), (''type'', JStr ''ordinal'')]),
                           (''y'', JObj [(''field'', JStr ''value''), (''type'', JStr ''quantitative'')]),
                           (''tooltip'', JObj [(''field'', JStr ''value''),
                                               (''type'', JStr ''quantitative'')])]),
      (''axisX'', JStr ''group''),
      (''axisY'', JStr ''value''),
      (''name'', JStr ''bar'')]"

definition bar_chart :: "unit transform" where
  "bar_chart = \<lparr>name = ''bar'', requires = [], produces = None, input_flag = True,
                output_flag = False, own = Plot ''chart'' (bar_spec JNull)\<rparr>"

section \<open>Auxiliary facts\<close>






lemma equalColumns_eq:
  assumes "columns_of (own this) = Some xs" and "columns_of (own other) = Some ys"
    and "name this = name other"
  shows "equalColumns this other = Inr (length xs = length ys \<and> set xs \<subseteq> set ys)"
  using assms by (auto simp: equalColumns_def list_all_iff)

lemma distinct_same_length:
  assumes "distinct xs" and "distinct ys"
  shows "(length xs = length ys \<and> set xs \<subseteq> set ys) \<longleftrightarrow> set xs = set ys"
proof
  assume h: "length xs = length ys \<and> set xs \<subseteq> set ys"
  have "card (set xs) = card (set ys)"
    using assms h by (simp add: distinct_card)
  then show "set xs = set ys"
    using h by (simp add: card_subset_eq)
next
  assume "set xs = set ys"
  then show "length xs = length ys \<and> set xs \<subseteq> set ys"
    using assms by (metis distinct_card order_refl)
qed

lemma map_of_own_put: "map_of (own_put k v obj) = (map_of obj)(k \<mapsto> v)"
  by (induction obj) auto

lemma get_prop_own_put:
  "get_prop (own_put k v obj) k' = (if k' = k then v else get_prop obj k')"
  by (simp add: get_prop_def map_of_own_put)

lemma get_prop_set_prop:
  "k \<noteq> ''__proto__'' \<Longrightarrow>
   get_prop (set_prop k v obj) k' = (if k' = k then v else get_prop obj k')"
  by (simp add: set_prop_def get_prop_own_put)

lemma assign_data_values_other:
  assumes "assign_data_values spec v = Some spec'" and "k \<noteq> ''data''"
  shows "get_prop spec' k = get_prop spec k"
  using assms
  by (auto simp: assign_data_values_def get_prop_set_prop split: jsval.splits)

lemma plot_variant_spec:
  assumes "plot_variant this"
  shows "\<exists>label spec. own this = Plot label spec \<and>
           get_prop spec ''data'' = JObj [(''values'', JNull)]"
  using assms
proof cases
  case (bar label axisX axisY)
  then show ?thesis
    by (auto simp: TransformBar_new_def TransformPlot_new_def TransformBase_new_def check_def
        Object_assign_def set_prop_def get_prop_def split: if_splits)
next
  case (box label axisX axisY)
  then show ?thesis
    by (auto simp: TransformBox_new_def TransformPlot_new_def TransformBase_new_def check_def
        Object_assign_def set_prop_def get_prop_def split: if_splits)
next
  case (dot label axisX)
  then show ?thesis
    by (auto simp: TransformDot_new_def TransformPlot_new_def TransformBase_new_def check_def
        Object_assign_def set_prop_def get_prop_def split: if_splits)
next
  case (histogram label column bins)
  then show ?thesis
    by (auto simp: TransformHistogram_new_def TransformPlot_new_def TransformBase_new_def check_def
        Object_assign_def set_prop_def get_prop_def split: if_splits)
next
  case (scatter label axisX axisY color)
  then show ?thesis
    by (auto simp: TransformScatter_new_def TransformPlot_new_def TransformBase_new_def check_def
        Object_assign_def set_prop_def get_prop_def split: if_splits)
qed

lemma run_not_plot:
  assumes "\<forall>label spec. own this \<noteq> Plot label spec"
  shows "fst (run ext this e df) = this"
  using assms
  by (cases "own this")
     (simp_all add: run_def TransformData_run_def TransformDrop_run_def TransformFilter_run_def
      TransformGroupBy_run_def TransformJoin_run_def TransformMutate_run_def
      TransformNotify_run_def TransformSelect_run_def TransformSequence_run_def
      TransformSort_run_def TransformSummarize_run_def TransformUngroup_run_def
      TransformUnique_run_def TransformTTestOneSample_run_def TransformTTestPaired_run_def
      Let_def split: dfval.splits sum.splits)

lemma run_plot:
  assumes "own this = Plot label spec"
  shows "fst (run ext this e df) =
           (case df of
              Frame d \<Rightarrow>
                (case assign_data_values spec (JArr (map JObj (data d))) of
                   Some spec' \<Rightarrow> this\<lparr>own := Plot label spec'\<rparr>
                 | None \<Rightarrow> this)
            | _ \<Rightarrow> this)"
  using assms
  by (simp add: run_def TransformPlot_run_def Let_def split: dfval.splits option.splits)






section \<open>The claims\<close>




text \<open>
  C2. For two transforms with columns and the same name, the \<^verbatim>\<open>equal\<close> of each of the
  five classes with columns is \<^verbatim>\<open>equalColumns\<close>, which holds exactly when the two
  lists have the same length and every column of the first is among those of the second;
  so it holds whenever one list is a reordering of the other. A drop of \<open>a, b\<close> equals a
  drop of \<open>b, a\<close> and, when \<open>b\<close> is neither \<open>a\<close> nor \<open>c\<close>, does not equal a drop of \<open>a, c\<close>.
\<close>

theorem equal_ignores_column_order:
  fixes this other t1 t2 t3 :: "'x transform"
  shows "(columns_of (own this) = Some xs \<and> columns_of (own other) = Some ys \<and>
          name this = name other \<longrightarrow>
            TransformDrop_equal this other = equalColumns this other \<and>
            TransformGroupBy_equal this other = equalColumns this other \<and>
            TransformSelect_equal this other = equalColumns this other \<and>
            TransformSort_equal this other = equalColumns this other \<and>
            TransformUnique_equal this other = equalColumns this other \<and>
            equalColumns this other = Inr (length xs = length ys \<and> set xs \<subseteq> set ys) \<and>
            (mset xs = mset ys \<longrightarrow> equalColumns this other = Inr True)) \<and>
         (TransformDrop_new [a, b] = Inr t1 \<and> TransformDrop_new [b, a] = Inr t2 \<and>
          TransformDrop_new [a, c] = Inr t3 \<and> b \<noteq> a \<and> b \<noteq> c \<longrightarrow>
            TransformDrop_equal t1 t2 = Inr True \<and> TransformDrop_equal t1 t3 = Inr False)"
proof -
  have general: "columns_of (own this) = Some xs \<and> columns_of (own other) = Some ys \<and>
          name this = name other \<longrightarrow>
            TransformDrop_equal this other = equalColumns this other \<and>
            TransformGroupBy_equal this other = equalColumns this other \<and>
            TransformSelect_equal this other = equalColumns this other \<and>
            TransformSort_equal this other = equalColumns this other \<and>
            TransformUnique_equal this other = equalColumns this other \<and>
            equalColumns this other = Inr (length xs = length ys \<and> set xs \<subseteq> set ys) \<and>
            (mset xs = mset ys \<longrightarrow> equalColumns this other = Inr True)"
  proof
    assume h: "columns_of (own this) = Some xs \<and> columns_of (own other) = Some ys \<and>
          name this = name other"
    then have eq: "equalColumns this other = Inr (length xs = length ys \<and> set xs \<subseteq> set ys)"
      by (simp add: equalColumns_eq)
    have perm: "mset xs = mset ys \<longrightarrow> equalColumns this other = Inr True"
    proof
      assume m: "mset xs = mset ys"
      have "length xs = length ys" using m by (rule mset_eq_length)
      moreover have "set xs = set ys" using m by (rule mset_eq_setD)
      ultimately show "equalColumns this other = Inr True" using eq by simp
    qed
    show "TransformDrop_equal this other = equalColumns this other \<and>
            TransformGroupBy_equal this other = equalColumns this other \<and>
            TransformSelect_equal this other = equalColumns this other \<and>
            TransformSort_equal this other = equalColumns this other \<and>
            TransformUnique_equal this other = equalColumns this other \<and>
            equalColumns this other = Inr (length xs = length ys \<and> set xs \<subseteq> set ys) \<and>
            (mset xs = mset ys \<longrightarrow> equalColumns this other = Inr True)"
      using eq perm
      by (simp add: TransformDrop_equal_def TransformGroupBy_equal_def TransformSelect_equal_def
          TransformSort_equal_def TransformUnique_equal_def)
  qed
  have drops: "TransformDrop_new [a, b] = Inr t1 \<and> TransformDrop_new [b, a] = Inr t2 \<and>
          TransformDrop_new [a, c] = Inr t3 \<and> b \<noteq> a \<and> b \<noteq> c \<longrightarrow>
            TransformDrop_equal t1 t2 = Inr True \<and> TransformDrop_equal t1 t3 = Inr False"
    by (auto simp: TransformDrop_new_def TransformBase_new_def check_def TransformDrop_equal_def
        equalColumns_def)
  show ?thesis using general drops by blast
qed

theorem equal_ignores_column_order_witness:
  "TransformDrop_new [''a'', ''b''] = Inr (drop_of [''a'', ''b'']) \<and>
   TransformDrop_new [''b'', ''a''] = Inr (drop_of [''b'', ''a'']) \<and>
   TransformDrop_new [''a'', ''c''] = Inr (drop_of [''a'', ''c'']) \<and>
   TransformDrop_equal (drop_of [''a'', ''b'']) (drop_of [''b'', ''a'']) = Inr True \<and>
   TransformDrop_equal (drop_of [''a'', ''b'']) (drop_of [''a'', ''c'']) = Inr False \<and>
   equalColumns (drop_of [''a'', ''b'', ''c'']) (drop_of [''c'', ''a'', ''b'']) = Inr True"
proof -
  have built: "TransformDrop_new cols = Inr (drop_of cols)" for cols
    by (simp add: TransformDrop_new_def TransformBase_new_def check_def drop_of_def)
  have cols: "columns_of (own (drop_of cols)) = Some cols" for cols
    by (simp add: drop_of_def)
  have nm: "name (drop_of cols) = name (drop_of cols')" for cols cols'
    by (simp add: drop_of_def)
  have m: "mset [''a'', ''b'', ''c''] = mset [''c'', ''a'', ''b'']"
    by simp
  have "TransformDrop_equal (drop_of [''a'', ''b'']) (drop_of [''b'', ''a'']) = Inr True \<and>
        TransformDrop_equal (drop_of [''a'', ''b'']) (drop_of [''a'', ''c'']) = Inr False"
    using equal_ignores_column_order
      [of "drop_of [''a'', ''b'']" "[''a'', ''b'']" "drop_of [''b'', ''a'']" "[''b'', ''a'']"
          "''a''" "''b''" "drop_of [''a'', ''b'']" "drop_of [''b'', ''a'']" "''c''"
          "drop_of [''a'', ''c'']"] built
    by simp
  moreover have "equalColumns (drop_of [''a'', ''b'', ''c'']) (drop_of [''c'', ''a'', ''b'']) = Inr True"
    using equal_ignores_column_order
      [of "drop_of [''a'', ''b'', ''c'']" "[''a'', ''b'', ''c'']"
          "drop_of [''c'', ''a'', ''b'']" "[''c'', ''a'', ''b'']"] cols nm m
    by blast
  ultimately show ?thesis using built by simp
qed

text \<open>
  C3, as the code has it. The run of a read transform fails with \<open>InvariantViolation\<close>
  exactly when its dataframe argument is not \<^verbatim>\<open>null\<close>, whatever the dataframe holds.
  With \<^verbatim>\<open>null\<close> and an environment that holds the dataset named at construction, it
  returns a dataframe built from the data and the columns of that dataset.
\<close>

theorem read_rejects_any_frame:
  fixes this :: "'x transform"
  assumes "own this = Data dataset"
  shows "(snd (snd (run ext this e df)) = Inl InvariantViolation \<longleftrightarrow> df \<noteq> Null) \<and>
         (df \<noteq> Null \<longrightarrow>
            run ext this e df = (this, appendLog e (name this), Inl InvariantViolation)) \<and>
         (\<forall>loaded. df = Null \<and> datasets e dataset = Some loaded \<longrightarrow>
            run ext this e df =
              (this, appendLog e (name this),
               Inr (Frame (DataFrame (data loaded) (columns loaded)))))"
  using assms
  by (auto simp: run_def TransformData_run_def Let_def check_def InvariantViolation_def
      getData_def appendLog_def split: option.splits)

theorem read_rejects_any_frame_witness:
  "run sample_externals read_colors sample_env (Frame two_label_frame) =
     (read_colors, appendLog sample_env ''read'', Inl InvariantViolation) \<and>
   run sample_externals read_colors sample_env (Frame empty_frame) =
     (read_colors, appendLog sample_env ''read'', Inl InvariantViolation) \<and>
   run sample_externals read_colors sample_env Null =
     (read_colors, appendLog sample_env ''read'',
      Inr (Frame (DataFrame (data two_label_frame) (columns two_label_frame))))"
proof -
  have own: "own read_colors = Data ''colors''"
    by (simp add: read_colors_def)
  have nm: "name read_colors = ''read''"
    by (simp add: read_colors_def)
  have held: "datasets sample_env ''colors'' = Some two_label_frame"
    by (simp add: sample_env_def)
  note r = read_rejects_any_frame [OF own, of sample_externals sample_env]
  have "run sample_externals read_colors sample_env (Frame two_label_frame) =
     (read_colors, appendLog sample_env ''read'', Inl InvariantViolation)"
    using r [of "Frame two_label_frame"] nm by simp
  moreover have "run sample_externals read_colors sample_env (Frame empty_frame) =
     (read_colors, appendLog sample_env ''read'', Inl InvariantViolation)"
    using r [of "Frame empty_frame"] nm by simp
  moreover have "run sample_externals read_colors sample_env Null =
     (read_colors, appendLog sample_env ''read'',
      Inr (Frame (DataFrame (data two_label_frame) (columns two_label_frame))))"
    using r [of Null] nm held by simp
  ultimately show ?thesis by simp
qed

text \<open>
  C3 as stated lets an empty dataframe through. The guard is \<^verbatim>\<open>df === null\<close>: the
  run of a read transform on a dataframe with no rows fails with \<open>InvariantViolation\<close>.
\<close>

theorem read_empty_frame_counterexample:
  "TransformData_new ''colors'' = Inr read_colors \<and>
   data empty_frame = [] \<and>
   snd (snd (run sample_externals read_colors sample_env (Frame empty_frame))) =
     Inl InvariantViolation"
  by (simp add: TransformData_new_def TransformBase_new_def check_def read_colors_def
      empty_frame_def DataFrame_def run_def TransformData_run_def Let_def InvariantViolation_def)

text \<open>
  C4. The run of a transform built by one of the five plot classes on a dataframe writes
  the rows into the \<^verbatim>\<open>data.values\<close> slot of its specification and registers that
  specification in the environment under its label, after the log entry. Its value is
  \<^verbatim>\<open>undefined\<close>, not the dataframe it was given: \<^verbatim>\<open>TransformPlot.run\<close> has no
  \<^verbatim>\<open>return\<close>, where the runs of the notify and t-test classes end in
  \<^verbatim>\<open>return df\<close>.
\<close>

theorem plot_run_returns_undefined:
  assumes "plot_variant this"
  shows "\<exists>label spec spec'.
           own this = Plot label spec \<and>
           assign_data_values spec (JArr (map JObj (data d))) = Some spec' \<and>
           get_prop spec' ''data'' = JObj [(''values'', JArr (map JObj (data d)))] \<and>
           run ext this e (Frame d) =
             (this\<lparr>own := Plot label spec'\<rparr>,
              setPlot (appendLog e (name this)) label (JObj spec'),
              Inr Undefined) \<and>
           plots (fst (snd (run ext this e (Frame d)))) label = Some (JObj spec') \<and>
           snd (snd (run ext this e (Frame d))) \<noteq> Inr (Frame d)"
proof -
  obtain label spec where p: "own this = Plot label spec"
    and dat: "get_prop spec ''data'' = JObj [(''values'', JNull)]"
    using plot_variant_spec [OF assms] by blast
  define spec' where
    "spec' = set_prop ''data'' (JObj [(''values'', JArr (map JObj (data d)))]) spec"
  have a: "assign_data_values spec (JArr (map JObj (data d))) = Some spec'"
    using dat by (simp add: assign_data_values_def spec'_def set_prop_def)
  have g: "get_prop spec' ''data'' = JObj [(''values'', JArr (map JObj (data d)))]"
    by (simp add: spec'_def get_prop_set_prop)
  have r: "run ext this e (Frame d) =
             (this\<lparr>own := Plot label spec'\<rparr>,
              setPlot (appendLog e (name this)) label (JObj spec'),
              Inr Undefined)"
    using p a by (simp add: run_def TransformPlot_run_def Let_def)
  have s: "plots (fst (snd (run ext this e (Frame d)))) label = Some (JObj spec')"
    using r by (simp add: setPlot_def)
  show ?thesis using p a g r s by simp
qed

theorem plot_run_returns_undefined_witness:
  "TransformBar_new ''chart'' ''group'' ''value'' = Inr bar_chart \<and>
   run sample_externals bar_chart sample_env (Frame two_label_frame) =
     (bar_chart\<lparr>own := Plot ''chart'' (bar_spec (JArr (map JObj (data two_label_frame))))\<rparr>,
      setPlot (appendLog sample_env ''bar'') ''chart''
        (JObj (bar_spec (JArr (map JObj (data two_label_frame))))),
      Inr Undefined)"
proof -
  have built: "TransformBar_new ''chart'' ''group'' ''value'' = Inr bar_chart"
    by (simp add: TransformBar_new_def TransformPlot_new_def TransformBase_new_def check_def
        Object_assign_def set_prop_def bar_chart_def bar_spec_def field_type_def)
  then have pv: "plot_variant bar_chart"
    by (rule plot_variant.bar)
  have own: "own bar_chart = Plot ''chart'' (bar_spec JNull)"
    by (simp add: bar_chart_def)
  have nm: "name bar_chart = ''bar''"
    by (simp add: bar_chart_def)
  have a: "assign_data_values (bar_spec JNull) v = Some (bar_spec v)" for v
    by (simp add: assign_data_values_def set_prop_def bar_spec_def get_prop_def)
  have "run sample_externals bar_chart sample_env (Frame two_label_frame) =
     (bar_chart\<lparr>own := Plot ''chart'' (bar_spec (JArr (map JObj (data two_label_frame))))\<rparr>,
      setPlot (appendLog sample_env ''bar'') ''chart''
        (JObj (bar_spec (JArr (map JObj (data two_label_frame))))),
      Inr Undefined)"
    using plot_run_returns_undefined [OF pv, of two_label_frame sample_externals sample_env]
      own nm a by auto
  then show ?thesis using built by simp
qed

text \<open>
  C5, as the code has it. A run leaves the name, the requirements, the product and the two
  flags of its transform as they were. A transform that is not a plot is left unchanged
  altogether. A plot keeps its label, and its specification is either unchanged or the old
  one with the rows of the dataframe assigned to \<^verbatim>\<open>data.values\<close>: every property
  other than \<^verbatim>\<open>data\<close> reads as before.
\<close>

theorem run_writes_only_plot_values:
  "name (fst (run ext this e df)) = name this \<and>
   requires (fst (run ext this e df)) = requires this \<and>
   produces (fst (run ext this e df)) = produces this \<and>
   input_flag (fst (run ext this e df)) = input_flag this \<and>
   output_flag (fst (run ext this e df)) = output_flag this \<and>
   ((\<forall>label spec. own this \<noteq> Plot label spec) \<longrightarrow> fst (run ext this e df) = this) \<and>
   (\<forall>label spec. own this = Plot label spec \<longrightarrow>
      (\<exists>spec'. own (fst (run ext this e df)) = Plot label spec' \<and>
         (spec' = spec \<or>
          (\<exists>d. df = Frame d \<and> assign_data_values spec (JArr (map JObj (data d))) = Some spec')) \<and>
         (\<forall>k. k \<noteq> ''data'' \<longrightarrow> get_prop spec' k = get_prop spec k)))"
proof (cases "\<exists>label spec. own this = Plot label spec")
  case False
  then have "fst (run ext this e df) = this"
    using run_not_plot [of this ext e df] by simp
  then show ?thesis using False by simp
next
  case True
  then obtain label spec where p: "own this = Plot label spec" by blast
  show ?thesis
  proof (cases "\<exists>d spec'. df = Frame d \<and>
                   assign_data_values spec (JArr (map JObj (data d))) = Some spec'")
    case True
    then obtain d spec' where d: "df = Frame d"
      and a: "assign_data_values spec (JArr (map JObj (data d))) = Some spec'" by blast
    have r: "fst (run ext this e df) = this\<lparr>own := Plot label spec'\<rparr>"
      using run_plot [OF p, of ext e df] d a by simp
    have "\<forall>k. k \<noteq> ''data'' \<longrightarrow> get_prop spec' k = get_prop spec k"
      using assign_data_values_other [OF a] by simp
    then show ?thesis using r p d a by simp
  next
    case False
    then have "fst (run ext this e df) = this"
      using run_plot [OF p, of ext e df] by (auto split: dfval.splits option.splits)
    then show ?thesis using p by simp
  qed
qed

theorem run_writes_only_plot_values_witness:
  "fst (run sample_externals (drop_of [''value'']) sample_env (Frame two_label_frame)) =
     drop_of [''value''] \<and>
   fst (run sample_externals ttest_groups sample_env (Frame two_label_frame)) = ttest_groups \<and>
   name (fst (run sample_externals bar_chart sample_env (Frame two_label_frame))) = ''bar'' \<and>
   own (fst (run sample_externals bar_chart sample_env (Frame two_label_frame))) =
     Plot ''chart'' (bar_spec (JArr (map JObj (data two_label_frame)))) \<and>
   get_prop (bar_spec (JArr (map JObj (data two_label_frame)))) ''mark'' =
     get_prop (bar_spec JNull) ''mark''"
proof -
  have a: "assign_data_values (bar_spec JNull) v = Some (bar_spec v)" for v
    by (simp add: assign_data_values_def set_prop_def bar_spec_def get_prop_def)
  have own: "own bar_chart = Plot ''chart'' (bar_spec JNull)"
    by (simp add: bar_chart_def)
  have d: "fst (run sample_externals (drop_of [''value'']) sample_env (Frame two_label_frame)) =
     drop_of [''value'']"
    using run_writes_only_plot_values
      [of sample_externals "drop_of [''value'']" sample_env "Frame two_label_frame"]
    by (simp add: drop_of_def)
  have t: "fst (run sample_externals ttest_groups sample_env (Frame two_label_frame)) = ttest_groups"
    using run_writes_only_plot_values
      [of sample_externals ttest_groups sample_env "Frame two_label_frame"]
    by (simp add: ttest_groups_def)
  note b = run_writes_only_plot_values
      [of sample_externals bar_chart sample_env "Frame two_label_frame"]
  have n: "name (fst (run sample_externals bar_chart sample_env (Frame two_label_frame))) = ''bar''"
    using b by (simp add: bar_chart_def)
  have after: "own (fst (run sample_externals bar_chart sample_env (Frame two_label_frame))) =
     Plot ''chart'' (bar_spec (JArr (map JObj (data two_label_frame))))"
    using own a by (simp add: run_def TransformPlot_run_def Let_def)
  have "\<exists>spec'. own (fst (run sample_externals bar_chart sample_env (Frame two_label_frame))) =
                  Plot ''chart'' spec' \<and>
                (\<forall>k. k \<noteq> ''data'' \<longrightarrow> get_prop spec' k = get_prop (bar_spec JNull) k)"
    using b own by auto
  then have "\<forall>k. k \<noteq> ''data'' \<longrightarrow>
               get_prop (bar_spec (JArr (map JObj (data two_label_frame)))) k =
               get_prop (bar_spec JNull) k"
    using after by auto
  then have m: "get_prop (bar_spec (JArr (map JObj (data two_label_frame)))) ''mark'' =
                get_prop (bar_spec JNull) ''mark''"
    by simp
  show ?thesis using d t n after m by simp
qed

text \<open>
  C5 as stated has the specification of a plot unchanged by the run. The run of a bar
  chart on a dataframe of three rows replaces the \<^verbatim>\<open>null\<close> in the
  \<^verbatim>\<open>data.values\<close> slot of its specification by the rows.
\<close>

theorem plot_run_writes_spec_counterexample:
  "TransformBar_new ''chart'' ''group'' ''value'' = Inr bar_chart \<and>
   own bar_chart = Plot ''chart'' (bar_spec JNull) \<and>
   own (fst (run sample_externals bar_chart sample_env (Frame two_label_frame))) =
     Plot ''chart'' (bar_spec (JArr (map JObj (data two_label_frame)))) \<and>
   fst (run sample_externals bar_chart sample_env (Frame two_label_frame)) \<noteq> bar_chart"
proof -
  have built: "TransformBar_new ''chart'' ''group'' ''value'' = Inr bar_chart"
    by (simp add: TransformBar_new_def TransformPlot_new_def TransformBase_new_def check_def
        Object_assign_def set_prop_def bar_chart_def bar_spec_def field_type_def)
  have own: "own bar_chart = Plot ''chart'' (bar_spec JNull)"
    by (simp add: bar_chart_def)
  have a: "assign_data_values (bar_spec JNull) v = Some (bar_spec v)" for v
    by (simp add: assign_data_values_def set_prop_def bar_spec_def get_prop_def)
  have after: "own (fst (run sample_externals bar_chart sample_env (Frame two_label_frame))) =
     Plot ''chart'' (bar_spec (JArr (map JObj (data two_label_frame))))"
    using own a by (simp add: run_def TransformPlot_run_def Let_def)
  have "bar_spec (JArr (map JObj (data two_label_frame))) \<noteq> bar_spec JNull"
    by (simp add: bar_spec_def)
  then have "fst (run sample_externals bar_chart sample_env (Frame two_label_frame)) \<noteq> bar_chart"
    using after own by auto
  then show ?thesis using built own after by simp
qed

text \<open>
  C6. The construction of a summarize transform returns the transform when the operation
  is the name of a summarizer class or a name that the exported object inherits from
  \<^verbatim>\<open>Object.prototype\<close>, and fails with \<open>UnknownOperation\<close>, naming the operation,
  for every other name. So it does not fail for \<^verbatim>\<open>toString\<close>, which names no
  summarizer: the transform is built, and its run throws \<open>TypeError\<close>, whatever the
  environment and the dataframe.
\<close>

theorem summarize_accepts_inherited_names:
  "TransformSummarize_new ext op column =
     (if op \<in> set (Summarize ext) \<or> op \<in> set Object_prototype
      then Inr \<lparr>name = ''summarize'', requires = [], produces = None, input_flag = True,
                output_flag = True, own = SummarizeOp op column\<rparr>
      else Inl (UnknownOperation op)) \<and>
   (''toString'' \<notin> set (Summarize ext) \<longrightarrow>
      TransformSummarize_new ext ''toString'' column =
        Inr \<lparr>name = ''summarize'', requires = [], produces = None, input_flag = True,
             output_flag = True, own = SummarizeOp ''toString'' column\<rparr> \<and>
      snd (snd (run ext \<lparr>name = ''summarize'', requires = [], produces = None,
                         input_flag = True, output_flag = True,
                         own = SummarizeOp ''toString'' column\<rparr> e df)) = Inl TypeError)"
proof -
  have inherited: "''toString'' \<in> set Object_prototype"
    by (simp add: Object_prototype_def)
  have new: "TransformSummarize_new ext op' column =
     (if op' \<in> set (Summarize ext) \<or> op' \<in> set Object_prototype
      then Inr \<lparr>name = ''summarize'', requires = [], produces = None, input_flag = True,
                output_flag = True, own = SummarizeOp op' column\<rparr>
      else Inl (UnknownOperation op'))" for op'
    by (simp add: TransformSummarize_new_def TransformBase_new_def check_def
        UnknownOperation_def has_property_def)
  have runs: "''toString'' \<notin> set (Summarize ext) \<longrightarrow>
      snd (snd (run ext \<lparr>name = ''summarize'', requires = [], produces = None,
                         input_flag = True, output_flag = True,
                         own = SummarizeOp ''toString'' column\<rparr> e df)) = Inl TypeError"
    by (simp add: run_def TransformSummarize_run_def Let_def)
  show ?thesis using new [of op] new [of "''toString''"] inherited runs by simp
qed

theorem summarize_accepts_inherited_names_witness:
  "''toString'' \<notin> set (Summarize sample_externals) \<and>
   TransformSummarize_new sample_externals ''toString'' ''value'' = Inr summarize_toString \<and>
   snd (snd (run sample_externals summarize_toString sample_env (Frame two_label_frame))) =
     Inl TypeError \<and>
   TransformSummarize_new sample_externals ''mean'' ''value'' = Inr summarize_mean \<and>
   TransformSummarize_new sample_externals ''mode'' ''value'' = Inl (UnknownOperation ''mode'')"
proof -
  have own: "Summarize sample_externals = [''count'', ''mean'', ''sum'']"
    by (simp add: sample_externals_def)
  have no: "''toString'' \<notin> set (Summarize sample_externals)"
    using own by simp
  have mode: "''mode'' \<notin> set (Summarize sample_externals) \<and> ''mode'' \<notin> set Object_prototype"
    using own by (simp add: Object_prototype_def)
  have mean: "''mean'' \<in> set (Summarize sample_externals)"
    using own by simp
  note t = summarize_accepts_inherited_names
             [of sample_externals _ "''value''" sample_env "Frame two_label_frame"]
  have "TransformSummarize_new sample_externals ''toString'' ''value'' = Inr summarize_toString \<and>
        snd (snd (run sample_externals summarize_toString sample_env (Frame two_label_frame))) =
          Inl TypeError"
    using t [of "''toString''"] no by (simp add: summarize_toString_def Object_prototype_def)
  moreover have "TransformSummarize_new sample_externals ''mean'' ''value'' = Inr summarize_mean"
    using t [of "''mean''"] mean by (simp add: summarize_mean_def)
  moreover have "TransformSummarize_new sample_externals ''mode'' ''value'' =
                   Inl (UnknownOperation ''mode'')"
    using t [of "''mode''"] mode by simp
  ultimately show ?thesis using no by simp
qed

text \<open>
  C7. Whatever the class of the transform, the environment and the dataframe argument, and
  whether the run returns or throws, the log of the environment after the run is the log
  before it followed by the name of the transform.
\<close>

theorem run_appends_log:
  "env_log (fst (snd (run ext this e df))) = env_log e @ [name this]"
proof (cases "own this")
  case (Plot label spec)
  then show ?thesis
    by (simp add: run_def TransformPlot_run_def Let_def appendLog_def setPlot_def
        split: dfval.splits option.splits)
next
  case (TTestOneSample label colName mean)
  then show ?thesis
    by (simp add: run_def TransformTTestOneSample_run_def Let_def appendLog_def setStats_def
        split: dfval.splits sum.splits)
next
  case (TTestPaired label labelCol valueCol)
  then show ?thesis
    by (simp add: run_def TransformTTestPaired_run_def Let_def appendLog_def setStats_def
        split: dfval.splits sum.splits)
qed (simp_all add: run_def TransformData_run_def TransformDrop_run_def TransformFilter_run_def
      TransformGroupBy_run_def TransformJoin_run_def TransformMutate_run_def
      TransformNotify_run_def TransformSelect_run_def TransformSequence_run_def
      TransformSort_run_def TransformSummarize_run_def TransformUngroup_run_def
      TransformUnique_run_def Let_def appendLog_def)

theorem run_appends_log_witness:
  "snd (snd (run sample_externals read_colors sample_env (Frame two_label_frame))) =
     Inl InvariantViolation \<and>
   env_log (fst (snd (run sample_externals read_colors sample_env (Frame two_label_frame)))) =
     [''read''] \<and>
   snd (snd (run sample_externals read_colors sample_env Null)) =
     Inr (Frame (DataFrame (data two_label_frame) (columns two_label_frame))) \<and>
   env_log (fst (snd (run sample_externals read_colors sample_env Null))) = [''read'']"
proof -
  have "env_log (fst (snd (run sample_externals read_colors sample_env (Frame two_label_frame)))) =
     [''read'']"
    using run_appends_log [of sample_externals read_colors sample_env "Frame two_label_frame"]
    by (simp add: sample_env_def read_colors_def)
  moreover have "env_log (fst (snd (run sample_externals read_colors sample_env Null))) =
     [''read'']"
    using run_appends_log [of sample_externals read_colors sample_env Null]
    by (simp add: sample_env_def read_colors_def)
  moreover have "snd (snd (run sample_externals read_colors sample_env (Frame two_label_frame))) =
     Inl InvariantViolation"
    by (simp add: run_def TransformData_run_def read_colors_def Let_def check_def
        InvariantViolation_def)
  moreover have "snd (snd (run sample_externals read_colors sample_env Null)) =
     Inr (Frame (DataFrame (data two_label_frame) (columns two_label_frame)))"
    by (simp add: run_def TransformData_run_def read_colors_def Let_def check_def getData_def
        appendLog_def sample_env_def)
  ultimately show ?thesis by simp
qed

text \<open>
  C8, as the code has it. The requirements of a constructed transform are the names of
  the left and of the right table, in this order, for a join, and empty for every other
  class, the read class included.
\<close>

theorem requires_of_constructed:
  assumes "constructed ext t"
  shows "requires t =
           (case own t of Join leftName leftCol rightName rightCol \<Rightarrow> [leftName, rightName]
                        | _ \<Rightarrow> [])"
  using assms
proof cases
  case (c_plot)
  then show ?thesis
    by cases
       (auto simp: TransformBar_new_def TransformBox_new_def TransformDot_new_def
          TransformHistogram_new_def TransformScatter_new_def TransformPlot_new_def
          TransformBase_new_def check_def split: if_splits)
qed (auto simp: TransformData_new_def TransformDrop_new_def TransformFilter_new_def
       TransformGroupBy_new_def TransformJoin_new_def TransformMutate_new_def
       TransformNotify_new_def TransformSelect_new_def TransformSequence_new_def
       TransformSort_new_def TransformSummarize_new_def TransformUngroup_new_def
       TransformUnique_new_def TransformTTestOneSample_new_def TransformTTestPaired_new_def
       TransformBase_new_def check_def split: if_splits)

theorem requires_of_constructed_witness:
  "constructed sample_externals read_colors \<and> requires read_colors = [] \<and>
   constructed sample_externals join_colors \<and> requires join_colors = [''colors'', ''names''] \<and>
   constructed sample_externals summarize_mean \<and> requires summarize_mean = []"
proof -
  have "TransformData_new ''colors'' = Inr read_colors"
    by (simp add: TransformData_new_def TransformBase_new_def check_def read_colors_def)
  then have r: "constructed sample_externals read_colors"
    by (rule constructed.c_data)
  have "TransformJoin_new ''colors'' ''group'' ''names'' ''group'' = Inr join_colors"
    by (simp add: TransformJoin_new_def TransformBase_new_def check_def join_colors_def)
  then have j: "constructed sample_externals join_colors"
    by (rule constructed.c_join)
  have "TransformSummarize_new sample_externals ''mean'' ''value'' = Inr summarize_mean"
    by (simp add: TransformSummarize_new_def TransformBase_new_def check_def summarize_mean_def
        sample_externals_def has_property_def)
  then have s: "constructed sample_externals summarize_mean"
    by (rule constructed.c_summarize)
  have "requires read_colors = []"
    using requires_of_constructed [OF r] by (simp add: read_colors_def)
  moreover have "requires join_colors = [''colors'', ''names'']"
    using requires_of_constructed [OF j] by (simp add: join_colors_def)
  moreover have "requires summarize_mean = []"
    using requires_of_constructed [OF s] by (simp add: summarize_mean_def)
  ultimately show ?thesis using r j s by simp
qed

text \<open>
  C8 as stated has the dataset of a read transform among its requirements. The
  constructor of the read class passes the empty list to \<^verbatim>\<open>TransformBase\<close>.
\<close>

theorem read_requires_nothing_counterexample:
  "TransformData_new ''colors'' = Inr read_colors \<and>
   own read_colors = Data ''colors'' \<and>
   requires read_colors = []"
  by (simp add: TransformData_new_def TransformBase_new_def check_def read_colors_def)

text \<open>
  C9, as the code has it. For every column name other than \<^verbatim>\<open>__proto__\<close> and
  every natural number \<open>n\<close> below 4294967296 as the limit, the run of a sequence transform
  returns, whatever its dataframe argument, a new dataframe of exactly \<open>n\<close> rows; row \<open>i\<close>,
  counted from 0, has the one column \<open>newName\<close> with the value \<open>i + 1\<close>, so that the column
  reads 1, 2, up to \<open>n\<close>.
\<close>

theorem sequence_run_rows:
  fixes this :: "'x transform"
  assumes "own this = Sequence newName (real n)"
    and "newName \<noteq> ''__proto__''"
    and "n < 4294967296"
  shows "\<exists>rows. run ext this e df =
                  (this, appendLog e (name this), Inr (Frame (DataFrame rows JUndefined))) \<and>
                length rows = n \<and>
                (\<forall>i<n. rows ! i = [(newName, JNum (real (i + 1)))]) \<and>
                map (\<lambda>row. get_prop row newName) rows = map (\<lambda>k. JNum (real k)) [1 ..< n + 1]"
proof -
  define rows where "rows = map (\<lambda>k. set_prop newName (JNum (real k + 1)) []) [0 ..< n]"
  have r: "run ext this e df =
             (this, appendLog e (name this), Inr (Frame (DataFrame rows JUndefined)))"
    using assms(1) assms(3) by (simp add: run_def TransformSequence_run_def Let_def rows_def)
  have l: "length rows = n" by (simp add: rows_def)
  have i: "\<forall>i<n. rows ! i = [(newName, JNum (real (i + 1)))]"
    using assms(2) by (simp add: rows_def set_prop_def add.commute)
  have "map (\<lambda>row. get_prop row newName) rows = map (\<lambda>k. JNum (real k + 1)) [0 ..< n]"
    using assms(2) by (simp add: rows_def set_prop_def get_prop_def)
  also have "\<dots> = map (\<lambda>k. JNum (real k)) (map Suc [0 ..< n])"
    by (simp add: add.commute)
  also have "map Suc [0 ..< n] = [1 ..< n + 1]"
    using map_Suc_upt [of 0 n] by simp
  finally have c: "map (\<lambda>row. get_prop row newName) rows = map (\<lambda>k. JNum (real k)) [1 ..< n + 1]" .
  show ?thesis using r l i c by blast
qed

theorem sequence_run_rows_witness:
  "TransformSequence_new ''n'' 3 = Inr (sequence_of ''n'' 3) \<and>
   run sample_externals (sequence_of ''n'' 3) sample_env (Frame two_label_frame) =
     (sequence_of ''n'' 3, appendLog sample_env ''sequence'',
      Inr (Frame (DataFrame [[(''n'', JNum 1)], [(''n'', JNum 2)], [(''n'', JNum 3)]] JUndefined)))"
proof -
  have built: "TransformSequence_new ''n'' 3 = Inr (sequence_of ''n'' 3)"
    by (simp add: TransformSequence_new_def TransformBase_new_def check_def sequence_of_def)
  have own: "own (sequence_of ''n'' 3) = Sequence ''n'' (real 3)"
    by (simp add: sequence_of_def)
  have nm: "name (sequence_of ''n'' 3) = ''sequence''"
    by (simp add: sequence_of_def)
  have key: "''n'' \<noteq> ''__proto__''"
    by simp
  have small: "(3::nat) < 4294967296"
    by simp
  obtain rows where
    r: "run sample_externals (sequence_of ''n'' 3) sample_env (Frame two_label_frame) =
          (sequence_of ''n'' 3, appendLog sample_env ''sequence'',
           Inr (Frame (DataFrame rows JUndefined)))"
    and l: "length rows = 3"
    and i: "\<forall>i<3. rows ! i = [(''n'', JNum (real (i + 1)))]"
    using sequence_run_rows [OF own key small, of sample_externals sample_env
            "Frame two_label_frame"] nm
    by auto
  have "rows = [[(''n'', JNum 1)], [(''n'', JNum 2)], [(''n'', JNum 3)]]"
  proof (rule nth_equalityI)
    show "length rows = length [[(''n'', JNum 1)], [(''n'', JNum 2)], [(''n'', JNum 3)]]"
      using l by simp
  next
    fix k assume "k < length rows"
    then have "k = 0 \<or> k = 1 \<or> k = 2" using l by auto
    then show "rows ! k = [[(''n'', JNum 1)], [(''n'', JNum 2)], [(''n'', JNum 3)]] ! k"
      using i by auto
  qed
  then show ?thesis using built r by simp
qed

text \<open>
  C9 as stated holds for every column name and every limit. With the name
  \<^verbatim>\<open>__proto__\<close> the assignment creates no property and the rows are empty objects;
  with the limit 4294967296 the array cannot be created and the run throws
  \<open>RangeError\<close>.
\<close>

theorem sequence_proto_and_length_counterexample:
  "TransformSequence_new ''__proto__'' 2 = Inr (sequence_of ''__proto__'' 2) \<and>
   run sample_externals (sequence_of ''__proto__'' 2) sample_env Null =
     (sequence_of ''__proto__'' 2, appendLog sample_env ''sequence'',
      Inr (Frame (DataFrame [[], []] JUndefined))) \<and>
   TransformSequence_new ''n'' 4294967296 = Inr (sequence_of ''n'' 4294967296) \<and>
   run sample_externals (sequence_of ''n'' 4294967296) sample_env Null =
     (sequence_of ''n'' 4294967296, appendLog sample_env ''sequence'', Inl RangeError)"
proof -
  have built: "TransformSequence_new newName limit = Inr (sequence_of newName limit)"
    for newName limit
    by (simp add: TransformSequence_new_def TransformBase_new_def check_def sequence_of_def)
  have two: "[0 ..< 2] = [0, 1]"
    by (simp add: upt_rec)
  have proto: "run sample_externals (sequence_of ''__proto__'' 2) sample_env Null =
     (sequence_of ''__proto__'' 2, appendLog sample_env ''sequence'',
      Inr (Frame (DataFrame [[], []] JUndefined)))"
    using two by (simp add: run_def TransformSequence_run_def sequence_of_def Let_def set_prop_def)
  have big: "run sample_externals (sequence_of ''n'' 4294967296) sample_env Null =
     (sequence_of ''n'' 4294967296, appendLog sample_env ''sequence'', Inl RangeError)"
    by (simp add: run_def TransformSequence_run_def sequence_of_def Let_def)
  show ?thesis using built proto big by simp
qed

text \<open>
  C10. For two transforms with columns and the same name, neither list repeating a
  column, \<^verbatim>\<open>equalColumns\<close> holds exactly when the two lists have the same elements.
  With a repeated column it need not: a drop of \<open>a, a\<close> equals a drop of \<open>a, b\<close>, whose
  columns are a different set, and the drop of \<open>a, b\<close> does not equal the drop of \<open>a, a\<close>.
\<close>

theorem equalColumns_is_set_equality_without_duplicates:
  fixes this other :: "'x transform"
  shows "(columns_of (own this) = Some xs \<and> columns_of (own other) = Some ys \<and>
          name this = name other \<and> distinct xs \<and> distinct ys \<longrightarrow>
            equalColumns this other = Inr (set xs = set ys)) \<and>
         (\<exists>(t1 :: 'x transform) t2.
            TransformDrop_new [''a'', ''a''] = Inr t1 \<and> TransformDrop_new [''a'', ''b''] = Inr t2 \<and>
            equalColumns t1 t2 = Inr True \<and> set [''a'', ''a''] \<noteq> set [''a'', ''b''] \<and>
            equalColumns t2 t1 = Inr False)"
proof -
  have "columns_of (own this) = Some xs \<and> columns_of (own other) = Some ys \<and>
          name this = name other \<and> distinct xs \<and> distinct ys \<longrightarrow>
            equalColumns this other = Inr (set xs = set ys)"
    using equalColumns_eq [of this xs other ys] distinct_same_length [of xs ys] by simp
  moreover have "\<exists>(t1 :: 'x transform) t2.
            TransformDrop_new [''a'', ''a''] = Inr t1 \<and> TransformDrop_new [''a'', ''b''] = Inr t2 \<and>
            equalColumns t1 t2 = Inr True \<and> set [''a'', ''a''] \<noteq> set [''a'', ''b''] \<and>
            equalColumns t2 t1 = Inr False"
    by (simp add: TransformDrop_new_def TransformBase_new_def check_def equalColumns_def)
  ultimately show ?thesis by blast
qed

theorem equalColumns_is_set_equality_without_duplicates_witness:
  "distinct [''a'', ''b''] \<and> distinct [''b'', ''a''] \<and> distinct [''a'', ''c''] \<and>
   equalColumns (drop_of [''a'', ''b'']) (drop_of [''b'', ''a'']) = Inr True \<and>
   equalColumns (drop_of [''a'', ''b'']) (drop_of [''a'', ''c'']) = Inr False"
proof -
  have cols: "columns_of (own (drop_of cols)) = Some cols" for cols
    by (simp add: drop_of_def)
  have nm: "name (drop_of cols) = name (drop_of cols')" for cols cols'
    by (simp add: drop_of_def)
  have d: "distinct [''a'', ''b''] \<and> distinct [''b'', ''a''] \<and> distinct [''a'', ''c'']"
    by simp
  have "equalColumns (drop_of [''a'', ''b'']) (drop_of [''b'', ''a'']) =
          Inr (set [''a'', ''b''] = set [''b'', ''a''])"
    using equalColumns_is_set_equality_without_duplicates
      [of "drop_of [''a'', ''b'']" "[''a'', ''b'']" "drop_of [''b'', ''a'']" "[''b'', ''a'']"]
      cols nm d by blast
  then have same: "equalColumns (drop_of [''a'', ''b'']) (drop_of [''b'', ''a'']) = Inr True"
    by (simp add: insert_commute)
  have "equalColumns (drop_of [''a'', ''b'']) (drop_of [''a'', ''c'']) =
          Inr (set [''a'', ''b''] = set [''a'', ''c''])"
    using equalColumns_is_set_equality_without_duplicates
      [of "drop_of [''a'', ''b'']" "[''a'', ''b'']" "drop_of [''a'', ''c'']" "[''a'', ''c'']"]
      cols nm d by blast
  then have differ: "equalColumns (drop_of [''a'', ''b'']) (drop_of [''a'', ''c'']) = Inr False"
    by (simp add: doubleton_eq_iff)
  show ?thesis using d same differ by blast
qed

end
